theory Spec2Isabelle
  imports Main "HOL-Library.Word"
begin

section \<open>Data model of Serialization.hpp\<close>

text \<open>
  The header declares eight overloads of \<open>serialize\<close>/\<open>deserialize\<close> in namespace
  \<open>Serialization\<close>. Exactly one of them has a body: the span-based \<open>serialize\<close> for a
  single value (lines 11--24), whose body is one \<open>static_assert\<close>. All the others are
  declarations without a definition.
\<close>

type_synonym byte = "8 word"
  \<comment> \<open>\<open>std::byte\<close>\<close>

datatype endian = little | big
  \<comment> \<open>\<open>std::endian\<close>; \<open>std::endian::native\<close> is one of the two\<close>

text \<open>
  The template parameter \<open>T\<close> is deduced from \<open>const T &inValue\<close>, so it is an object or
  function type. Its primary type category decides \<open>std::is_arithmetic_v\<close> and
  \<open>std::is_enum_v\<close>; \<open>sizeof\<close> is the size of its object representation in bytes.
\<close>

datatype type_category =
    Null_pointer | Integral | Floating_point | Array | Pointer | Member_pointer
  | Enum | Union | Class | Function

record ctype =
  category :: type_category
  sizeof :: nat

definition is_arithmetic_v :: "ctype \<Rightarrow> bool" where
  "is_arithmetic_v T = (category T = Integral \<or> category T = Floating_point)"

definition is_enum_v :: "ctype \<Rightarrow> bool" where
  "is_enum_v T = (category T = Enum)"

text \<open>
  A value is its type together with its bit pattern, read as an unsigned number
  (least significant byte = lowest 8 bits).
\<close>

record cvalue =
  vtype :: ctype
  bits :: nat

definition well_formed :: "cvalue \<Rightarrow> bool" where
  "well_formed v = (bits v < 256 ^ sizeof (vtype v))"

text \<open>
  \<open>std::span<std::byte, _extent>\<close> is a pointer and a length into storage it does not own.
  Storage is a store from addresses to bytes, so that what a call writes, and what it
  leaves alone, is explicit.
\<close>

type_synonym memory = "nat \<Rightarrow> byte"

record span =
  data_ptr :: nat
  extent :: nat

text \<open>
  What an attempt to instantiate and run an overload can end in, other than a result:
  the two compile-time rejections, and the run-time capacity violation of spec section 7.
\<close>

datatype failure = Static_assert_failed | Size_mismatch | Capacity_violation

text \<open>
  The return type of the defined overload is deduced (\<open>auto\<close>): a body without a
  \<open>return\<close> statement returns \<open>void\<close>.
\<close>

datatype 'a returned = Void | Returns 'a

section \<open>The defined overload: span-based serialize of one value\<close>

text \<open>
  \<^verbatim>\<open>
  template <typename T, size_t _extent>
  auto serialize(std::span<std::byte, _extent> buffer, const T &inValue,
                 std::endian targetEndian) noexcept
  {
      static_assert(std::is_arithmetic_v<T> || std::is_enum_v<T>);
  }
  \<close>
  The static assertion rejects the instantiation at compile time; where it holds, the
  body has no statement left: nothing is written through \<open>buffer\<close> and nothing is returned.
\<close>

definition serialize ::
  "memory \<Rightarrow> span \<Rightarrow> cvalue \<Rightarrow> endian \<Rightarrow> failure + memory \<times> span returned" where
  "serialize mem buffer inValue targetEndian =
     (if is_arithmetic_v (vtype inValue) \<or> is_enum_v (vtype inValue)
      then Inr (mem, Void)
      else Inl Static_assert_failed)"

section \<open>The declared overloads, modelled from the spec\<close>

text \<open>
  The remaining seven overloads have no definition in Serialization.hpp. The span-based
  in-place \<open>deserialize\<close> and the three array-based overloads are modelled from the spec's
  contract for them; \<open>native\<close> is the platform's byte order, which the spec's contracts
  mention and the header never fixes. The two group overloads are not modelled: the step
  they are specified to repeat for each value is the defined \<open>serialize\<close> above.
\<close>

text \<open>Modelled from the spec: the bytes of a bit pattern, least significant byte first
  (Glossary, little-endian); the header has no byte-level code at all.\<close>

fun le_bytes :: "nat \<Rightarrow> nat \<Rightarrow> byte list" where
  "le_bytes 0 n = []"
| "le_bytes (Suc k) n = of_nat (n mod 256) # le_bytes k (n div 256)"

text \<open>Modelled from the spec: the bit pattern that little-endian bytes stand for, the
  inverse reading that \<open>deserialize\<close> needs; missing from the header.\<close>

fun le_value :: "byte list \<Rightarrow> nat" where
  "le_value [] = 0"
| "le_value (b # bs) = unat b + 256 * le_value bs"

text \<open>Modelled from the spec: the raw byte representation of a value in memory
  (section 4.1), which is in the platform's native order; missing from the header.\<close>

definition object_representation :: "endian \<Rightarrow> cvalue \<Rightarrow> byte list" where
  "object_representation native v =
     (if native = little then le_bytes (sizeof (vtype v)) (bits v)
      else rev (le_bytes (sizeof (vtype v)) (bits v)))"

text \<open>Modelled from the spec: the value of type \<open>T\<close> whose raw representation in native
  order is the given bytes (section 4.1, storing into the target); missing from the header.\<close>

definition value_of_representation :: "endian \<Rightarrow> ctype \<Rightarrow> byte list \<Rightarrow> cvalue" where
  "value_of_representation native T bs =
     \<lparr>vtype = T, bits = le_value (if native = little then bs else rev bs)\<rparr>"

text \<open>Modelled from the spec: "byte-swapped if the order differs from the platform's
  native order" (section 4.1); missing from the header.\<close>

definition swap_unless_native :: "endian \<Rightarrow> endian \<Rightarrow> byte list \<Rightarrow> byte list" where
  "swap_unless_native native order bs = (if order = native then bs else rev bs)"

text \<open>Modelled from the spec: the \<open>sizeof(value)\<close> bytes that represent a value in a
  requested order (section 4.1); missing from the header.\<close>

definition wire_bytes :: "endian \<Rightarrow> endian \<Rightarrow> cvalue \<Rightarrow> byte list" where
  "wire_bytes native order v = swap_unless_native native order (object_representation native v)"

text \<open>Modelled from the spec: writing bytes into the first bytes of a view, that is at
  its data pointer (section 4.1); no overload of the header contains a write.\<close>

definition write_bytes :: "memory \<Rightarrow> nat \<Rightarrow> byte list \<Rightarrow> memory" where
  "write_bytes mem p bs = (\<lambda>a. if p \<le> a \<and> a < p + length bs then bs ! (a - p) else mem a)"

text \<open>Modelled from the spec: reading the first bytes of a view (section 4.1); no
  overload of the header contains a read.\<close>

definition read_bytes :: "memory \<Rightarrow> nat \<Rightarrow> nat \<Rightarrow> byte list" where
  "read_bytes mem p k = map (\<lambda>i. mem (p + i)) [0..<k]"

text \<open>Modelled from the spec: the view of the remaining bytes after a prefix of \<open>k\<close> bytes
  is consumed (section 4.3, Buffer Cursor Protocol); missing from the header.\<close>

definition subspan :: "span \<Rightarrow> nat \<Rightarrow> span" where
  "subspan s k = \<lparr>data_ptr = data_ptr s + k, extent = extent s - k\<rparr>"

text \<open>Modelled from the spec: the contract of section 4.1 for the span-based \<open>serialize\<close>,
  following the spec's words. The header's own \<open>serialize\<close> above is compared with it. The
  static type check comes first, as it is made at compile time; a view shorter than
  \<open>sizeof(value)\<close> is the capacity violation of section 7.\<close>

definition serialize_spec ::
  "endian \<Rightarrow> memory \<Rightarrow> span \<Rightarrow> cvalue \<Rightarrow> endian \<Rightarrow> failure + memory \<times> span" where
  "serialize_spec native mem view v targetOrder =
     (if is_arithmetic_v (vtype v) \<or> is_enum_v (vtype v) then
        if sizeof (vtype v) \<le> extent view
        then Inr (write_bytes mem (data_ptr view) (wire_bytes native targetOrder v),
                  subspan view (sizeof (vtype v)))
        else Inl Capacity_violation
      else Inl Static_assert_failed)"

text \<open>Modelled from the spec: the span-based \<open>deserialize\<close> into a target of type \<open>T\<close>
  (declared at lines 43--44, never defined). Section 4.1: it reads the first
  \<open>sizeof(targetVariable)\<close> bytes of the view, byte-swaps if the source order differs from
  the native order, stores the result into the target and returns the remaining view.\<close>

definition deserialize ::
  "endian \<Rightarrow> memory \<Rightarrow> span \<Rightarrow> ctype \<Rightarrow> endian \<Rightarrow> failure + cvalue \<times> span" where
  "deserialize native mem view T sourceOrder =
     (if is_arithmetic_v T \<or> is_enum_v T then
        if sizeof T \<le> extent view
        then Inr (value_of_representation native T
                    (swap_unless_native native sourceOrder
                       (read_bytes mem (data_ptr view) (sizeof T))),
                  subspan view (sizeof T))
        else Inl Capacity_violation
      else Inl Static_assert_failed)"

text \<open>Modelled from the spec: the values the Primitive Codec covers (section 4.1,
  arithmetic and enumeration types), whose bit pattern fits their size.\<close>

definition primitive_value :: "cvalue \<Rightarrow> bool" where
  "primitive_value v = ((is_arithmetic_v (vtype v) \<or> is_enum_v (vtype v)) \<and> well_formed v)"














definition uint16_t :: ctype where
  "uint16_t = \<lparr>category = Integral, sizeof = 2\<rparr>"

definition uint32_t :: ctype where
  "uint32_t = \<lparr>category = Integral, sizeof = 4\<rparr>"

section \<open>Bytes, storage and views\<close>

lemma length_le_bytes [simp]: "length (le_bytes k n) = k"
  by (induction k arbitrary: n) simp_all

lemma le_value_le_bytes: "le_value (le_bytes k n) = n mod 256 ^ k"
proof (induction k arbitrary: n)
  case 0
  show ?case by simp
next
  case (Suc k)
  have "unat (of_nat (n mod 256) :: byte) = n mod 256"
    by (simp add: unat_of_nat)
  then have "le_value (le_bytes (Suc k) n) = n mod 256 + 256 * ((n div 256) mod 256 ^ k)"
    using Suc.IH by simp
  also have "\<dots> = n mod 256 ^ Suc k"
    by (simp add: mod_mult2_eq)
  finally show ?case .
qed

lemma length_read_bytes [simp]: "length (read_bytes mem p k) = k"
  by (simp add: read_bytes_def)

lemma nth_read_bytes: "i < k \<Longrightarrow> read_bytes mem p k ! i = mem (p + i)"
  by (simp add: read_bytes_def)

lemma read_write_same: "read_bytes (write_bytes mem p bs) p (length bs) = bs"
proof (rule nth_equalityI)
  show "length (read_bytes (write_bytes mem p bs) p (length bs)) = length bs"
    by simp
next
  fix i
  assume "i < length (read_bytes (write_bytes mem p bs) p (length bs))"
  then have "i < length bs" by simp
  then show "read_bytes (write_bytes mem p bs) p (length bs) ! i = bs ! i"
    by (simp add: nth_read_bytes write_bytes_def)
qed


lemma wire_bytes_little: "wire_bytes native little v = le_bytes (sizeof (vtype v)) (bits v)"
  by (cases native) (simp_all add: wire_bytes_def swap_unless_native_def object_representation_def)

lemma wire_bytes_big: "wire_bytes native big v = rev (le_bytes (sizeof (vtype v)) (bits v))"
  by (cases native) (simp_all add: wire_bytes_def swap_unless_native_def object_representation_def)

lemma length_wire_bytes [simp]: "length (wire_bytes native order v) = sizeof (vtype v)"
  by (cases order) (simp_all add: wire_bytes_little wire_bytes_big)

lemma value_of_wire_bytes:
  "well_formed v \<Longrightarrow>
   value_of_representation native (vtype v) (swap_unless_native native order (wire_bytes native order v)) = v"
  by (cases native; cases order)
     (simp_all add: value_of_representation_def wire_bytes_def swap_unless_native_def
        object_representation_def le_value_le_bytes well_formed_def)

section \<open>The single-value contract\<close>

lemma serialize_spec_primitive:
  assumes "is_arithmetic_v (vtype v) \<or> is_enum_v (vtype v)"
    and "sizeof (vtype v) \<le> extent view"
  shows "serialize_spec native mem view v order =
           Inr (write_bytes mem (data_ptr view) (wire_bytes native order v),
                subspan view (sizeof (vtype v)))"
  using assms by (simp add: serialize_spec_def)

lemma deserialize_wire_bytes:
  assumes "primitive_value v"
    and "sizeof (vtype v) \<le> extent view"
    and "read_bytes mem (data_ptr view) (sizeof (vtype v)) = wire_bytes native order v"
  shows "deserialize native mem view (vtype v) order = Inr (v, subspan view (sizeof (vtype v)))"
  using assms by (simp add: deserialize_def primitive_value_def value_of_wire_bytes)

lemma le_bytes_1: "le_bytes 1 n = [of_nat (n mod 256)]"
  by simp


lemma le_bytes_4:
  "le_bytes 4 n =
     [of_nat (n mod 256), of_nat (n div 256 mod 256), of_nat (n div 256 div 256 mod 256),
      of_nat (n div 256 div 256 div 256 mod 256)]"
proof -
  have "(4::nat) = Suc (Suc (Suc (Suc 0)))" by simp
  then show ?thesis by (simp only: le_bytes.simps)
qed

text \<open>The contract of section 4.1 at the spec's example scenario.\<close>

lemma serialize_spec_example:
  "wire_bytes native little \<lparr>vtype = uint32_t, bits = 0x01020304\<rparr> = [0x04, 0x03, 0x02, 0x01]"
  "wire_bytes native big \<lparr>vtype = uint32_t, bits = 0x01020304\<rparr> = [0x01, 0x02, 0x03, 0x04]"
  by (simp_all add: wire_bytes_little wire_bytes_big uint32_t_def le_bytes_4)

lemma wire_bytes_reversed: "wire_bytes native little v = rev (wire_bytes native big v)"
  by (simp add: wire_bytes_little wire_bytes_big)

lemma serialize_spec_roundtrip:
  assumes "primitive_value v" and "sizeof (vtype v) \<le> extent view"
  shows "serialize_spec native mem view v order =
           Inr (write_bytes mem (data_ptr view) (wire_bytes native order v),
                subspan view (sizeof (vtype v)))"
    and "deserialize native (write_bytes mem (data_ptr view) (wire_bytes native order v))
           view (vtype v) order = Inr (v, subspan view (sizeof (vtype v)))"
proof -
  from assms show "serialize_spec native mem view v order =
           Inr (write_bytes mem (data_ptr view) (wire_bytes native order v),
                subspan view (sizeof (vtype v)))"
    by (simp add: serialize_spec_primitive primitive_value_def)
  have "read_bytes (write_bytes mem (data_ptr view) (wire_bytes native order v)) (data_ptr view)
          (length (wire_bytes native order v)) = wire_bytes native order v"
    by (rule read_write_same)
  then show "deserialize native (write_bytes mem (data_ptr view) (wire_bytes native order v))
           view (vtype v) order = Inr (v, subspan view (sizeof (vtype v)))"
    using assms by (simp add: deserialize_wire_bytes)
qed


section \<open>What the defined serialize does\<close>

text \<open>
  Claim C10. For every arithmetic or enumeration value, every byte order and every buffer,
  the span-based primitive \<open>serialize\<close>, the only overload with a body, leaves every byte
  of storage unchanged and returns no remainder view (its deduced return type is \<open>void\<close>):
  the body is a \<open>static_assert\<close> and performs no write.
\<close>

theorem serialize_static_assert_only:
  assumes "is_arithmetic_v (vtype inValue) \<or> is_enum_v (vtype inValue)"
  shows "serialize mem buffer inValue targetEndian = Inr (mem, Void)"
  using assms by (simp add: serialize_def)

theorem serialize_static_assert_only_witness:
  "(is_arithmetic_v (vtype \<lparr>vtype = uint32_t, bits = 0x01020304\<rparr>)
    \<or> is_enum_v (vtype \<lparr>vtype = uint32_t, bits = 0x01020304\<rparr>))
   \<and> serialize (\<lambda>_. 0xEE) \<lparr>data_ptr = 0, extent = 4\<rparr> \<lparr>vtype = uint32_t, bits = 0x01020304\<rparr> big
       = Inr (\<lambda>_. 0xEE, Void)"
proof -
  have h: "is_arithmetic_v (vtype \<lparr>vtype = uint32_t, bits = 0x01020304\<rparr>)
    \<or> is_enum_v (vtype \<lparr>vtype = uint32_t, bits = 0x01020304\<rparr>)"
    by (simp add: is_arithmetic_v_def uint32_t_def)
  show ?thesis
    using h serialize_static_assert_only [OF h, of "\<lambda>_. 0xEE" "\<lparr>data_ptr = 0, extent = 4\<rparr>" big]
    by simp
qed

text \<open>
  Claim C8. For every type that is neither arithmetic nor an enumeration, routing a value of
  it through the primitive \<open>serialize\<close> is rejected by the static assertion, whatever the
  storage, the view, the bit pattern and the byte order are: it is decided by the type
  alone, nothing is serialized from the raw memory layout and nothing fails at run time.
\<close>

theorem serialize_rejects_other_types:
  assumes "\<not> is_arithmetic_v (vtype inValue)" and "\<not> is_enum_v (vtype inValue)"
  shows "serialize mem buffer inValue targetEndian = Inl Static_assert_failed"
  using assms by (simp add: serialize_def)

theorem serialize_rejects_other_types_witness:
  "\<not> is_arithmetic_v (vtype \<lparr>vtype = \<lparr>category = Class, sizeof = 8\<rparr>, bits = 0\<rparr>)
   \<and> \<not> is_enum_v (vtype \<lparr>vtype = \<lparr>category = Class, sizeof = 8\<rparr>, bits = 0\<rparr>)
   \<and> serialize (\<lambda>_. 0) \<lparr>data_ptr = 0, extent = 8\<rparr>
        \<lparr>vtype = \<lparr>category = Class, sizeof = 8\<rparr>, bits = 0\<rparr> little = Inl Static_assert_failed"
proof -
  have a: "\<not> is_arithmetic_v (vtype \<lparr>vtype = \<lparr>category = Class, sizeof = 8\<rparr>, bits = 0\<rparr>)"
    by (simp add: is_arithmetic_v_def)
  have e: "\<not> is_enum_v (vtype \<lparr>vtype = \<lparr>category = Class, sizeof = 8\<rparr>, bits = 0\<rparr>)"
    by (simp add: is_enum_v_def)
  show ?thesis
    using a e serialize_rejects_other_types [OF a e, of "\<lambda>_. 0" "\<lparr>data_ptr = 0, extent = 8\<rparr>" little]
    by simp
qed

section \<open>The defined serialize against the contract of section 4.1\<close>

text \<open>
  Claim C1, at the spec's example. Serializing the 32-bit unsigned integer \<open>0x01020304\<close>
  into a zeroed 4-byte buffer, little-endian or big-endian, the defined \<open>serialize\<close> returns
  \<open>void\<close> and leaves the buffer \<open>[0x00, 0x00, 0x00, 0x00]\<close>; the claim requires
  \<open>[0x04, 0x03, 0x02, 0x01]\<close> and \<open>[0x01, 0x02, 0x03, 0x04]\<close> (\<open>serialize_spec_example\<close>).
\<close>

theorem serialize_0x01020304_writes_nothing:
  "serialize (\<lambda>_. 0) \<lparr>data_ptr = 0, extent = 4\<rparr> \<lparr>vtype = uint32_t, bits = 0x01020304\<rparr> little
     = Inr (\<lambda>_. 0, Void)
   \<and> serialize (\<lambda>_. 0) \<lparr>data_ptr = 0, extent = 4\<rparr> \<lparr>vtype = uint32_t, bits = 0x01020304\<rparr> big
     = Inr (\<lambda>_. 0, Void)
   \<and> read_bytes (\<lambda>_. 0) 0 4 = [0x00, 0x00, 0x00, 0x00]"
  by (simp add: serialize_def is_arithmetic_v_def uint32_t_def read_bytes_def upt_rec)

text \<open>
  Claim C2, at the same input. After the defined \<open>serialize\<close> of \<open>0x01020304\<close> into a
  zeroed 4-byte buffer, \<open>deserialize\<close> with the same order reads the bit pattern \<open>0\<close>, not
  \<open>0x01020304\<close>, and consumes 4 bytes where \<open>serialize\<close> produced none.
\<close>

theorem serialize_then_deserialize_loses_value:
  "serialize (\<lambda>_. 0) \<lparr>data_ptr = 0, extent = 4\<rparr> \<lparr>vtype = uint32_t, bits = 0x01020304\<rparr> little
     = Inr (\<lambda>_. 0, Void)
   \<and> deserialize little (\<lambda>_. 0) \<lparr>data_ptr = 0, extent = 4\<rparr> uint32_t little
     = Inr (\<lparr>vtype = uint32_t, bits = 0\<rparr>, \<lparr>data_ptr = 4, extent = 0\<rparr>)"
  by (simp add: serialize_def deserialize_def is_arithmetic_v_def uint32_t_def read_bytes_def upt_rec
      value_of_representation_def swap_unless_native_def subspan_def)

text \<open>
  Claim C3, at the 16-bit value \<open>0x0102\<close> and a buffer holding \<open>[0xAA, 0xBB]\<close>. After the
  defined \<open>serialize\<close> the buffer holds \<open>[0xAA, 0xBB]\<close> for the little-endian and for the
  big-endian order alike: the two byte sequences are equal, and not reverses of each other.
\<close>

theorem serialize_orders_leave_same_bytes:
  "serialize ((\<lambda>_. 0)(0 := 0xAA, 1 := 0xBB)) \<lparr>data_ptr = 0, extent = 2\<rparr>
       \<lparr>vtype = uint16_t, bits = 0x0102\<rparr> little
     = Inr ((\<lambda>_. 0)(0 := 0xAA, 1 := 0xBB), Void)
   \<and> serialize ((\<lambda>_. 0)(0 := 0xAA, 1 := 0xBB)) \<lparr>data_ptr = 0, extent = 2\<rparr>
       \<lparr>vtype = uint16_t, bits = 0x0102\<rparr> big
     = Inr ((\<lambda>_. 0)(0 := 0xAA, 1 := 0xBB), Void)
   \<and> read_bytes ((\<lambda>_. 0)(0 := 0xAA, 1 := 0xBB)) 0 2 = [0xAA, 0xBB]
   \<and> [0xAA, 0xBB] \<noteq> rev [0xAA, 0xBB :: byte]"
  by (simp add: serialize_def is_arithmetic_v_def uint16_t_def read_bytes_def upt_rec)

text \<open>
  Claim C4, at a 4-byte value and a 6-byte view. The claim requires a returned remaining
  view of length \<open>6 - 4\<close>; the defined \<open>serialize\<close> returns \<open>void\<close>, no view at all.
\<close>

theorem serialize_returns_no_remainder:
  "serialize (\<lambda>_. 0) \<lparr>data_ptr = 0, extent = 6\<rparr> \<lparr>vtype = uint32_t, bits = 0x01020304\<rparr> little
     = Inr (\<lambda>_. 0, Void)
   \<and> Void \<noteq> Returns (subspan \<lparr>data_ptr = 0, extent = 6\<rparr> 4)
   \<and> extent (subspan \<lparr>data_ptr = 0, extent = 6\<rparr> 4) = 6 - 4"
  by (simp add: serialize_def is_arithmetic_v_def uint32_t_def subspan_def)

section \<open>The steps of a group against the contract of section 4.4\<close>



section \<open>The fixed-capacity contract\<close>



end
